theory Spec2Isabelle
  imports Main "HOL-Library.Word"
begin

section \<open>Types, operators and their spelling tables (utils.hpp)\<close>

text \<open>
  The three enumerations of \<^verbatim>\<open>utils.hpp\<close>.  \<^verbatim>\<open>Action.hpp\<close> writes the members of
  \<open>Type\<close> as \<^verbatim>\<open>PrimitiveType::VOID\<close>; they are the same five values. \<open>INT\<close> is
  HOL's notation for intersections, so \<^verbatim>\<open>Type::INT\<close> is \<open>INT_T\<close> here.
\<close>

datatype Type = INT_T | FLOAT | BOOL | VOID | ANY

datatype Operator =
    EQUAL
  | NOT_EQUAL
  | GREATER_THAN
  | LESS_THAN
  | GREATER_EQUAL_THAN
  | LESS_EQUAL_THAN
  | AND
  | OR
  | NOT
  | PLUS
  | MINUS
  | TIMES
  | DIVIDE
  | UNARY_MINUS
  | ASSIGN
  | PAR
  | CAST
  | TEST

text \<open>
  \<^verbatim>\<open>std::unordered_map::at\<close> throws \<^verbatim>\<open>std::out_of_range\<close> for a key that has no entry.
  It is the only exception the modelled code can raise.
\<close>

datatype exn = out_of_range

text \<open>The four constant tables, entry by entry, as association lists.\<close>

definition type_table :: "(Type \<times> string) list" where
  "type_table =
    [(INT_T, ''int''),
     (FLOAT, ''float''),
     (BOOL, ''bool'')]"

definition operator_table :: "(Operator \<times> string) list" where
  "operator_table =
    [(EQUAL, ''==''),
     (NOT_EQUAL, ''!=''),
     (GREATER_THAN, ''>''),
     (LESS_THAN, ''<''),
     (GREATER_EQUAL_THAN, ''>=''),
     (LESS_EQUAL_THAN, ''<=''),
     (AND, ''&''),
     (OR, ''|''),
     (NOT, ''!''),
     (PLUS, ''+''),
     (MINUS, ''-''),
     (TIMES, ''*''),
     (DIVIDE, ''/'')]"

definition printable_type_table :: "(Type \<times> string) list" where
  "printable_type_table =
    [(INT_T, ''integer''),
     (FLOAT, ''float''),
     (BOOL, ''boolean'')]"

definition printable_operator_table :: "(Operator \<times> string) list" where
  "printable_operator_table =
    [(EQUAL, ''equal''),
     (NOT_EQUAL, ''different''),
     (GREATER_THAN, ''greater than''),
     (LESS_THAN, ''less than''),
     (GREATER_EQUAL_THAN, ''greater or equal than''),
     (LESS_EQUAL_THAN, ''less or equal than''),
     (AND, ''and''),
     (OR, ''or''),
     (NOT, ''negation''),
     (PLUS, ''addition''),
     (MINUS, ''subtraction''),
     (TIMES, ''multiplication''),
     (DIVIDE, ''division''),
     (UNARY_MINUS, ''unary minus''),
     (ASSIGN, ''attribution''),
     (TEST, ''test'')]"

text \<open>\<^verbatim>\<open>table.at(key)\<close>: the entry, or the exception.\<close>

definition at :: "('k \<times> string) list \<Rightarrow> 'k \<Rightarrow> exn + string" where
  "at table k = (case map_of table k of None \<Rightarrow> Inl out_of_range | Some s \<Rightarrow> Inr s)"

text \<open>
  The overloads \<^verbatim>\<open>utils::to_string(Type)\<close>, \<^verbatim>\<open>utils::to_string(Operator)\<close> and the two
  \<^verbatim>\<open>utils::to_printable_string\<close>; the suffix names the overload.
\<close>

definition to_string_Type :: "Type \<Rightarrow> exn + string" where
  "to_string_Type ty = at type_table ty"

definition to_string_Operator :: "Operator \<Rightarrow> exn + string" where
  "to_string_Operator oper = at operator_table oper"

definition to_printable_string_Type :: "Type \<Rightarrow> exn + string" where
  "to_printable_string_Type ty = at printable_type_table ty"

definition to_printable_string_Operator :: "Operator \<Rightarrow> exn + string" where
  "to_printable_string_Operator oper = at printable_operator_table oper"

definition can_coerce :: "Type \<Rightarrow> Type \<Rightarrow> bool" where
  "can_coerce target source \<longleftrightarrow> target = FLOAT \<and> source = INT_T"

definition type_matches :: "Type \<Rightarrow> Type \<Rightarrow> bool" where
  "type_matches target source \<longleftrightarrow> target = source"

section \<open>The diagnostic reporter (utils.hpp)\<close>

text \<open>
  The process state the reporter touches: the \<^verbatim>\<open>line_counter\<close> singleton (a
  \<^verbatim>\<open>size_t\<close>, 64 bits wide here, initially 1) and the characters written to \<^verbatim>\<open>std::cerr\<close>
  so far.
\<close>

record world =
  counter :: "64 word"
  cerr :: string

definition initial_world :: world where
  "initial_world = \<lparr>counter = 1, cerr = []\<rparr>"

text \<open>\<^verbatim>\<open>line_counter::operator++\<close>.\<close>

definition increment :: "world \<Rightarrow> world" where
  "increment w = w\<lparr>counter := counter w + 1\<rparr>"

text \<open>\<^verbatim>\<open>std::to_string\<close> of an unsigned integer: its decimal digits, no sign, no padding.\<close>

definition digit :: "nat \<Rightarrow> char" where
  "digit n = ''0123456789'' ! n"

fun decimal :: "nat \<Rightarrow> string" where
  "decimal n = (if n < 10 then [digit n] else decimal (n div 10) @ [digit (n mod 10)])"

declare decimal.simps [simp del]

definition to_string_size_t :: "64 word \<Rightarrow> string" where
  "to_string_size_t n = decimal (unat n)"

text \<open>\<^verbatim>\<open>utils::echo\<close>: the value, then \<^verbatim>\<open>std::endl\<close>.\<close>

definition echo :: "string \<Rightarrow> world \<Rightarrow> world" where
  "echo v w = w\<lparr>cerr := cerr w @ v @ [CHR 0x0A]\<rparr>"

definition error_prefix :: "string \<Rightarrow> world \<Rightarrow> string" where
  "error_prefix kind w =
     (let line = to_string_size_t (counter w)
      in ''[Line '' @ line @ ''] '' @ kind @ '' error: '')"

text \<open>
  A call of \<^verbatim>\<open>utils::semantic_error<err>(args)\<close>: the template argument with the
  arguments of the overload that is specialised for it.
\<close>

datatype Error =
    MULTIPLE_DEFINITION string
  | UNDECLARED_VARIABLE string
  | INCOMPATIBLE_OPERANDS Operator Type Type
  | INCOMPATIBLE_ASSIGNMENT Type Type
  | INCOMPATIBLE_TEST Type
  | DECLARED_BUT_NEVER_DEFINED string
  | MULTIPLE_DEFINITION_FN string
  | WRONG_PARAM_COUNT string "64 word" "64 word"
  | INCOMPATIBLE_PARAM string Type Type
  | INCOMPATIBLE_INDEX Type Type
  | NON_ARRAY_INDEX

text \<open>
  The specialisations. \<open>incompatible_operands\<close> is the body of the one for
  \<^verbatim>\<open>INCOMPATIBLE_OPERANDS\<close>, which those for \<^verbatim>\<open>INCOMPATIBLE_ASSIGNMENT\<close> and
  \<^verbatim>\<open>INCOMPATIBLE_TEST\<close> call. The printable names are looked up before anything is
  written, so a lookup that throws leaves \<^verbatim>\<open>std::cerr\<close> as it was.
\<close>

definition incompatible_operands :: "Operator \<Rightarrow> Type \<Rightarrow> Type \<Rightarrow> world \<Rightarrow> exn + world" where
  "incompatible_operands oper expected actual w =
     (case to_printable_string_Operator oper of Inl e \<Rightarrow> Inl e | Inr op_name \<Rightarrow>
     (case to_printable_string_Type expected of Inl e \<Rightarrow> Inl e | Inr expected_str \<Rightarrow>
     (case to_printable_string_Type actual of Inl e \<Rightarrow> Inl e | Inr actual_str \<Rightarrow>
        Inr (echo (error_prefix ''semantic'' w @ op_name @ '' operation expected ''
                     @ expected_str @ '' but received '' @ actual_str) w))))"

fun semantic_error :: "Error \<Rightarrow> world \<Rightarrow> exn + world" where
  "semantic_error (MULTIPLE_DEFINITION name) w =
     Inr (echo (error_prefix ''semantic'' w @ ''re-declaration of variable '' @ name) w)"
| "semantic_error (MULTIPLE_DEFINITION_FN name) w =
     Inr (echo (error_prefix ''semantic'' w @ ''re-declaration of function '' @ name) w)"
| "semantic_error (UNDECLARED_VARIABLE name) w =
     Inr (echo (error_prefix ''semantic'' w @ ''undeclared variable '' @ name) w)"
| "semantic_error (INCOMPATIBLE_OPERANDS oper expected actual) w =
     incompatible_operands oper expected actual w"
| "semantic_error (INCOMPATIBLE_ASSIGNMENT expected actual) w =
     incompatible_operands ASSIGN expected actual w"
| "semantic_error (INCOMPATIBLE_TEST received) w =
     incompatible_operands TEST BOOL received w"
| "semantic_error (DECLARED_BUT_NEVER_DEFINED name) w =
     Inr (echo (error_prefix ''semantic'' w @ ''function '' @ name
                  @ '' is declared but never defined'') w)"
| "semantic_error (WRONG_PARAM_COUNT name expected actual) w =
     Inr (echo (error_prefix ''semantic'' w @ ''function '' @ name @ '' expects ''
                  @ to_string_size_t expected @ '' parameters but received ''
                  @ to_string_size_t actual) w)"
| "semantic_error (INCOMPATIBLE_PARAM name expected actual) w =
     (case to_printable_string_Type expected of Inl e \<Rightarrow> Inl e | Inr expected_str \<Rightarrow>
     (case to_printable_string_Type actual of Inl e \<Rightarrow> Inl e | Inr actual_str \<Rightarrow>
        Inr (echo (error_prefix ''semantic'' w @ ''parameter '' @ name @ '' expected ''
                     @ expected_str @ '' but received '' @ actual_str) w)))"
| "semantic_error (INCOMPATIBLE_INDEX expected actual) w =
     (case to_printable_string_Type expected of Inl e \<Rightarrow> Inl e | Inr expected_str \<Rightarrow>
     (case to_printable_string_Type actual of Inl e \<Rightarrow> Inl e | Inr actual_str \<Rightarrow>
        Inr (echo (error_prefix ''semantic'' w @ ''index operator expects ''
                     @ expected_str @ '' but received '' @ actual_str) w)))"
| "semantic_error NON_ARRAY_INDEX w =
     Inr (echo (error_prefix ''semantic'' w @ ''index operator expects an array'') w)"

section \<open>The nodes (Action.hpp)\<close>

text \<open>
  The indentation depth of \<^verbatim>\<open>to_string\<close> is an \<^verbatim>\<open>unsigned\<close>.
\<close>

type_synonym depth = "32 word"

text \<open>
  The classes derived from \<^verbatim>\<open>Operation\<close>: the dynamic class of an operation node selects
  the override of \<^verbatim>\<open>op_string\<close>.
\<close>

datatype op_class =
    Operation_C
  | Comparison_C
  | BoolOperation_C
  | Parenthesis_C
  | UnaryMinus_C
  | Cast_C

text \<open>
  An \<^verbatim>\<open>Action*\<close>, by the dynamic class of the node it points to.
  \<^item> \<open>Nop\<close> has no members.
  \<^item> \<open>Operation c op t fail needs_coercion children\<close> is a node of class \<open>c\<close> with the
    five data members of \<^verbatim>\<open>Operation\<close>.
  \<^item> \<open>ExpressionList expressions fail\<close> has the two data members of its class.
  \<^item> \<open>Other e ty text\<close> stands for a finished node of any class whose member functions
    are all defined in \<^verbatim>\<open>Action.cpp\<close> (\<^verbatim>\<open>Variable\<close>, \<^verbatim>\<open>Constant\<close>, \<^verbatim>\<open>FunCall\<close>, ...): it is
    given by what its three \<^verbatim>\<open>const\<close> virtual functions return, \<^verbatim>\<open>error()\<close>,
    \<^verbatim>\<open>type()\<close> and \<^verbatim>\<open>to_string(d)\<close> at each depth.
\<close>

datatype Action =
    Nop
  | Operation op_class Operator Type bool bool "Action list"
  | ExpressionList "Action list" bool
  | Other bool Type "depth \<Rightarrow> exn + string"

text \<open>
  \<^verbatim>\<open>error()\<close>: \<^verbatim>\<open>Action::error\<close> returns false and \<^verbatim>\<open>Nop\<close> does not override it;
  \<^verbatim>\<open>ExpressionList::error\<close> returns \<^verbatim>\<open>fail\<close>.

  Modelled from the spec: \<^verbatim>\<open>Operation::error\<close> is declared in \<^verbatim>\<open>Action.hpp\<close> and defined
  in \<^verbatim>\<open>Action.cpp\<close>, which is missing. The spec has every node store "a local failed
  flag" that its parent consults: it returns \<^verbatim>\<open>fail\<close>.
\<close>

fun error :: "Action \<Rightarrow> bool" where
  "error Nop = False"
| "error (Operation c oper ty f nc cs) = f"
| "error (ExpressionList xs f) = f"
| "error (Other e ty text) = e"

text \<open>
  \<^verbatim>\<open>type()\<close>: \<^verbatim>\<open>VOID\<close> for \<^verbatim>\<open>Nop\<close> and \<^verbatim>\<open>ExpressionList\<close>.

  Modelled from the spec: \<^verbatim>\<open>Operation::type\<close> is declared in \<^verbatim>\<open>Action.hpp\<close> and defined
  in \<^verbatim>\<open>Action.cpp\<close>, which is missing. The spec's "static type" of an operation is the
  member \<^verbatim>\<open>t\<close> that the constructors and \<^verbatim>\<open>set_type\<close> assign: it returns \<^verbatim>\<open>t\<close>.
\<close>

fun type :: "Action \<Rightarrow> Type" where
  "type Nop = VOID"
| "type (Operation c oper ty f nc cs) = ty"
| "type (ExpressionList xs f) = VOID"
| "type (Other e ty text) = ty"

text \<open>
  \<^verbatim>\<open>op_string()\<close> of an operation node of class \<open>c\<close> with operator \<open>oper\<close> and type
  \<open>ty\<close>. \<^verbatim>\<open>Parenthesis\<close>, \<^verbatim>\<open>UnaryMinus\<close> and \<^verbatim>\<open>Cast\<close> override it in \<^verbatim>\<open>Action.hpp\<close>.

  Modelled from the spec: \<^verbatim>\<open>Operation::op_string\<close>, which the other three classes
  inherit, is defined in \<^verbatim>\<open>Action.cpp\<close>, which is missing. The spec renders an operation
  "using the operator's canonical symbol table entry": it is \<^verbatim>\<open>utils::to_string(op)\<close>.
\<close>

fun op_string :: "op_class \<Rightarrow> Operator \<Rightarrow> Type \<Rightarrow> exn + string" where
  "op_string Parenthesis_C oper ty = Inr []"
| "op_string UnaryMinus_C oper ty = Inr ''-u''"
| "op_string Cast_C oper ty =
     (case to_string_Type ty of Inl e \<Rightarrow> Inl e | Inr s \<Rightarrow> Inr (''['' @ s @ '']''))"
| "op_string c oper ty = to_string_Operator oper"

text \<open>
  \<^verbatim>\<open>to_string(d)\<close>. \<^verbatim>\<open>Nop::to_string\<close> returns the empty string.

  Modelled from the spec: \<^verbatim>\<open>Operation::to_string\<close> and \<^verbatim>\<open>ExpressionList::to_string\<close> are
  declared in \<^verbatim>\<open>Action.hpp\<close> and defined in \<^verbatim>\<open>Action.cpp\<close>, which is missing. The spec
  builds the text of an operation from the operator's spelling, with the override of
  \<^verbatim>\<open>Cast\<close> and \<^verbatim>\<open>Parenthesis\<close>, from the coercion marker and from the children's texts;
  it does not settle where a single operand's operator and the coercion's cast are put,
  nor how a list is joined. That arrangement is the parameter \<open>L\<close>: it receives the
  spelling (none for a list), the marker, every child's type and renderer, and the depth.
  The spelling is obtained first, so a spelling that throws ends the rendering.
\<close>

type_synonym layout =
  "string option \<Rightarrow> bool \<Rightarrow> (Type \<times> (depth \<Rightarrow> exn + string)) list \<Rightarrow> depth \<Rightarrow> exn + string"

fun to_string :: "layout \<Rightarrow> Action \<Rightarrow> depth \<Rightarrow> exn + string" where
  "to_string L Nop d = Inr []"
| "to_string L (Operation c oper ty f nc cs) d =
     (case op_string c oper ty of
        Inl e \<Rightarrow> Inl e
      | Inr spelling \<Rightarrow> L (Some spelling) nc (map (\<lambda>a. (type a, \<lambda>d'. to_string L a d')) cs) d)"
| "to_string L (ExpressionList xs f) d =
     L None False (map (\<lambda>a. (type a, \<lambda>d'. to_string L a d')) xs) d"
| "to_string L (Other e ty text) d = text d"

subsection \<open>Operation and the classes derived from it\<close>

text \<open>The data members of an \<^verbatim>\<open>Operation\<close> while its constructor runs.\<close>

record operation =
  op :: Operator
  t :: Type
  fail :: bool
  needs_coercion :: bool
  children :: "Action list"

text \<open>The finished node of class \<open>c\<close>.\<close>

definition node :: "op_class \<Rightarrow> operation \<Rightarrow> Action" where
  "node c n = Operation c (op n) (t n) (fail n) (needs_coercion n) (children n)"

text \<open>
  \<^verbatim>\<open>Operation::set_children\<close>, the variadic template of \<^verbatim>\<open>Action.hpp\<close>, by recursion on
  the argument pack. \<^verbatim>\<open>Operation::check\<close> is defined in \<^verbatim>\<open>Action.cpp\<close>, which is missing;
  here it is the parameter \<open>chk\<close>, a function that may change the node and the process
  state, or throw. The overload without arguments ends the recursion.
\<close>

fun set_children ::
  "(Action \<Rightarrow> operation \<times> world \<Rightarrow> exn + operation \<times> world)
    \<Rightarrow> operation \<times> world \<Rightarrow> Action list \<Rightarrow> exn + operation \<times> world" where
  "set_children chk (n, w) [] = Inr (n, w)"
| "set_children chk (n, w) (action # args) =
     (let n1 = n\<lparr>fail := fail n \<or> error action\<rparr> in
      case (if \<not> fail n1 then chk action (n1, w) else Inr (n1, w)) of
        Inl e \<Rightarrow> Inl e
      | Inr (n2, w2) \<Rightarrow> set_children chk (n2\<lparr>children := children n2 @ [action]\<rparr>, w2) args)"

text \<open>
  Modelled from the spec: \<^verbatim>\<open>Operation::check\<close> is declared in \<^verbatim>\<open>Action.hpp\<close> and defined
  in \<^verbatim>\<open>Action.cpp\<close>, which is missing. The spec's compatibility check, in its order:
  skip when the accumulated type is \<^verbatim>\<open>ANY\<close>; accept a child of the accumulated type;
  accept and mark the node when an implicit coercion exists; else mark the node as
  failed, set its type to \<^verbatim>\<open>ANY\<close> and emit \<^verbatim>\<open>INCOMPATIBLE_OPERANDS\<close> with the operator, the
  accumulated type as expected and the child's type as actual. The spec does not say
  which of the two types is the target of the coercion and requires that the pair is
  accepted "in either position": \<^verbatim>\<open>utils::can_coerce\<close> is asked both ways.
\<close>

definition check :: "Action \<Rightarrow> operation \<times> world \<Rightarrow> exn + operation \<times> world" where
  "check action nw =
     (case nw of (n, w) \<Rightarrow>
        if t n = ANY then Inr (n, w)
        else if type_matches (t n) (type action) then Inr (n, w)
        else if can_coerce (t n) (type action) \<or> can_coerce (type action) (t n)
          then Inr (n\<lparr>needs_coercion := True\<rparr>, w)
        else (case semantic_error (INCOMPATIBLE_OPERANDS (op n) (t n) (type action)) w of
                Inl e \<Rightarrow> Inl e
              | Inr w' \<Rightarrow> Inr (n\<lparr>fail := True, t := ANY\<rparr>, w')))"

text \<open>
  Modelled from the spec: \<^verbatim>\<open>Operation::set_type\<close> is declared in \<^verbatim>\<open>Action.hpp\<close> and
  defined in \<^verbatim>\<open>Action.cpp\<close>, which is missing. \<^verbatim>\<open>Comparison\<close> and \<^verbatim>\<open>Cast\<close> call it to
  "force" and to "overwrite" the node's type: it assigns \<^verbatim>\<open>t\<close>.
\<close>

definition set_type :: "Type \<Rightarrow> operation \<Rightarrow> operation" where
  "set_type ty n = n\<lparr>t := ty\<rparr>"

text \<open>
  The arguments after the operator: a constructor template forwards its pack to one of
  the two constructors of \<^verbatim>\<open>Operation\<close>, the one that takes the first child or the one
  that takes the type.
\<close>

datatype ctor_args =
    From_first Action "Action list"
  | With_type Type "Action list"

text \<open>
  The two constructors of \<^verbatim>\<open>Operation\<close>; \<^verbatim>\<open>fail\<close> and \<^verbatim>\<open>needs_coercion\<close> start as false
  by their member initialisers, \<^verbatim>\<open>children\<close> starts empty.
\<close>

fun Operation_ctor :: "Operator \<Rightarrow> ctor_args \<Rightarrow> world \<Rightarrow> exn + operation \<times> world" where
  "Operation_ctor oper (From_first first args) w =
     set_children check
       (\<lparr>op = oper, t = type first, fail = False, needs_coercion = False, children = []\<rparr>, w)
       (first # args)"
| "Operation_ctor oper (With_type ty args) w =
     set_children check
       (\<lparr>op = oper, t = ty, fail = False, needs_coercion = False, children = []\<rparr>, w)
       args"

text \<open>The constructors of the derived classes: the new node and the process state.\<close>

definition Comparison :: "Operator \<Rightarrow> ctor_args \<Rightarrow> world \<Rightarrow> exn + Action \<times> world" where
  "Comparison oper args w =
     (case Operation_ctor oper args w of
        Inl e \<Rightarrow> Inl e
      | Inr (n, w') \<Rightarrow> Inr (node Comparison_C (set_type BOOL n), w'))"

definition BoolOperation :: "Operator \<Rightarrow> Action list \<Rightarrow> world \<Rightarrow> exn + Action \<times> world" where
  "BoolOperation oper args w =
     (case Operation_ctor oper (With_type BOOL args) w of
        Inl e \<Rightarrow> Inl e
      | Inr (n, w') \<Rightarrow> Inr (node BoolOperation_C n, w'))"

definition Parenthesis :: "Action \<Rightarrow> world \<Rightarrow> exn + Action \<times> world" where
  "Parenthesis operand w =
     (case Operation_ctor PAR (From_first operand []) w of
        Inl e \<Rightarrow> Inl e
      | Inr (n, w') \<Rightarrow> Inr (node Parenthesis_C n, w'))"

definition UnaryMinus :: "Action \<Rightarrow> world \<Rightarrow> exn + Action \<times> world" where
  "UnaryMinus operand w =
     (case Operation_ctor UNARY_MINUS (From_first operand []) w of
        Inl e \<Rightarrow> Inl e
      | Inr (n, w') \<Rightarrow> Inr (node UnaryMinus_C n, w'))"

definition Cast :: "Type \<Rightarrow> Action \<Rightarrow> world \<Rightarrow> exn + Action \<times> world" where
  "Cast ty operand w =
     (case Operation_ctor CAST (From_first operand []) w of
        Inl e \<Rightarrow> Inl e
      | Inr (n, w') \<Rightarrow> Inr (node Cast_C (set_type ty n), w'))"

subsection \<open>ExpressionList\<close>

text \<open>
  The implicit default constructor of \<^verbatim>\<open>ExpressionList\<close>: the class declares no
  constructor, so \<^verbatim>\<open>expressions\<close> starts empty. The member \<^verbatim>\<open>bool fail;\<close> has no
  initialiser (\<^verbatim>\<open>Operation\<close>, \<^verbatim>\<open>Loop\<close> and \<^verbatim>\<open>Fun\<close> write \<^verbatim>\<open>bool fail = false;\<close>), so
  default-initialisation leaves it with an indeterminate value: the parameter.
\<close>

definition ExpressionList_ctor :: "bool \<Rightarrow> Action" where
  "ExpressionList_ctor indeterminate = ExpressionList [] indeterminate"

text \<open>
  Modelled from the spec: \<^verbatim>\<open>ExpressionList::add\<close> is declared in \<^verbatim>\<open>Action.hpp\<close> and
  defined in \<^verbatim>\<open>Action.cpp\<close>, which is missing. The spec's list is "appendable" and
  "propagates failure if any member fails": the node is appended and the flag joined
  with the member's \<^verbatim>\<open>error()\<close>. Only an \<^verbatim>\<open>ExpressionList\<close> has this member function.
\<close>

fun add :: "Action \<Rightarrow> Action \<Rightarrow> Action" where
  "add action (ExpressionList xs f) = ExpressionList (xs @ [action]) (f \<or> error action)"

text \<open>\<^verbatim>\<open>ExpressionList::size\<close>.\<close>

fun size_ExpressionList :: "Action \<Rightarrow> nat" where
  "size_ExpressionList (ExpressionList xs f) = length xs"

subsection \<open>Constant\<close>

text \<open>
  Modelled from the spec: the constructor and the member functions of \<^verbatim>\<open>Constant\<close> are
  declared in \<^verbatim>\<open>Action.hpp\<close> and defined in \<^verbatim>\<open>Action.cpp\<close>, which is missing. The spec's
  constant has the literal's type, never an error, and is rendered as its literal text.
\<close>

definition Constant :: "Type \<Rightarrow> string \<Rightarrow> Action" where
  "Constant ty v = Other False ty (\<lambda>d. Inr v)"

subsection \<open>The arguments of a diagnostic\<close>

text \<open>The \<^verbatim>\<open>std::string\<close> argument of a call of \<^verbatim>\<open>semantic_error\<close>, empty when it has none.\<close>

fun name_of :: "Error \<Rightarrow> string" where
  "name_of (MULTIPLE_DEFINITION name) = name"
| "name_of (MULTIPLE_DEFINITION_FN name) = name"
| "name_of (UNDECLARED_VARIABLE name) = name"
| "name_of (DECLARED_BUT_NEVER_DEFINED name) = name"
| "name_of (WRONG_PARAM_COUNT name expected actual) = name"
| "name_of (INCOMPATIBLE_PARAM name expected actual) = name"
| "name_of err = []"

section \<open>Type and coercion rules\<close>

text \<open>
  Claim C3. For every pair of types, \<^verbatim>\<open>utils::can_coerce(target, source)\<close> holds exactly
  when the target is \<^verbatim>\<open>FLOAT\<close> and the source is \<^verbatim>\<open>INT\<close>; nothing is coerced into
  \<^verbatim>\<open>INT\<close>, \<^verbatim>\<open>BOOL\<close>, \<^verbatim>\<open>VOID\<close> or \<^verbatim>\<open>ANY\<close>, and nothing out of \<^verbatim>\<open>FLOAT\<close>.
\<close>

theorem can_coerce_only_int_to_float:
  "can_coerce target source = (target = FLOAT \<and> source = INT_T) \<and>
   \<not> can_coerce INT_T source \<and> \<not> can_coerce BOOL source \<and> \<not> can_coerce VOID source \<and>
   \<not> can_coerce ANY source \<and> \<not> can_coerce target FLOAT"
  by (simp add: can_coerce_def)

section \<open>The spelling tables are partial\<close>

lemma to_string_Type_values:
  "to_string_Type INT_T = Inr ''int'' \<and> to_string_Type FLOAT = Inr ''float'' \<and>
   to_string_Type BOOL = Inr ''bool'' \<and>
   to_string_Type VOID = Inl out_of_range \<and> to_string_Type ANY = Inl out_of_range"
  by (simp add: to_string_Type_def at_def type_table_def)

lemma to_string_Operator_values:
  "to_string_Operator EQUAL = Inr ''=='' \<and> to_string_Operator NOT_EQUAL = Inr ''!='' \<and>
   to_string_Operator GREATER_THAN = Inr ''>'' \<and> to_string_Operator LESS_THAN = Inr ''<'' \<and>
   to_string_Operator GREATER_EQUAL_THAN = Inr ''>='' \<and>
   to_string_Operator LESS_EQUAL_THAN = Inr ''<='' \<and>
   to_string_Operator AND = Inr ''&'' \<and> to_string_Operator OR = Inr ''|'' \<and>
   to_string_Operator NOT = Inr ''!'' \<and>
   to_string_Operator PLUS = Inr ''+'' \<and> to_string_Operator MINUS = Inr ''-'' \<and>
   to_string_Operator TIMES = Inr ''*'' \<and> to_string_Operator DIVIDE = Inr ''/'' \<and>
   to_string_Operator UNARY_MINUS = Inl out_of_range \<and>
   to_string_Operator ASSIGN = Inl out_of_range \<and>
   to_string_Operator PAR = Inl out_of_range \<and>
   to_string_Operator CAST = Inl out_of_range \<and>
   to_string_Operator TEST = Inl out_of_range"
  by (simp add: to_string_Operator_def at_def operator_table_def)

lemma to_string_Type_raises:
  "(to_string_Type ty = Inl out_of_range) = (ty = VOID \<or> ty = ANY)"
  using to_string_Type_values by (cases ty) simp_all

lemma to_string_Operator_raises:
  "(to_string_Operator oper = Inl out_of_range) =
   (oper = UNARY_MINUS \<or> oper = ASSIGN \<or> oper = PAR \<or> oper = CAST \<or> oper = TEST)"
  using to_string_Operator_values by (cases oper) simp_all

lemma Cast_op_string_raises:
  "op_string Cast_C oper VOID = Inl out_of_range \<and> op_string Cast_C oper ANY = Inl out_of_range"
  using to_string_Type_values by simp

text \<open>
  Claim C10. \<^verbatim>\<open>utils::to_string(Type)\<close> returns a spelling for \<^verbatim>\<open>INT\<close>, \<^verbatim>\<open>FLOAT\<close> and
  \<^verbatim>\<open>BOOL\<close> and throws \<^verbatim>\<open>std::out_of_range\<close> exactly for \<^verbatim>\<open>VOID\<close> and \<^verbatim>\<open>ANY\<close>;
  \<^verbatim>\<open>utils::to_string(Operator)\<close> returns a spelling for the thirteen comparison, boolean
  and arithmetic operators and throws exactly for \<^verbatim>\<open>UNARY_MINUS\<close>, \<^verbatim>\<open>ASSIGN\<close>, \<^verbatim>\<open>PAR\<close>,
  \<^verbatim>\<open>CAST\<close> and \<^verbatim>\<open>TEST\<close>; and \<^verbatim>\<open>Cast::op_string\<close> of a cast to \<^verbatim>\<open>VOID\<close> or to \<^verbatim>\<open>ANY\<close>
  throws instead of returning a spelling.
\<close>

theorem spelling_tables_partial:
  "(to_string_Type ty = Inl out_of_range) = (ty = VOID \<or> ty = ANY) \<and>
   to_string_Type INT_T = Inr ''int'' \<and> to_string_Type FLOAT = Inr ''float'' \<and>
   to_string_Type BOOL = Inr ''bool'' \<and>
   (to_string_Operator oper = Inl out_of_range) =
     (oper = UNARY_MINUS \<or> oper = ASSIGN \<or> oper = PAR \<or> oper = CAST \<or> oper = TEST) \<and>
   to_string_Operator EQUAL = Inr ''=='' \<and> to_string_Operator NOT_EQUAL = Inr ''!='' \<and>
   to_string_Operator GREATER_THAN = Inr ''>'' \<and> to_string_Operator LESS_THAN = Inr ''<'' \<and>
   to_string_Operator GREATER_EQUAL_THAN = Inr ''>='' \<and>
   to_string_Operator LESS_EQUAL_THAN = Inr ''<='' \<and>
   to_string_Operator AND = Inr ''&'' \<and> to_string_Operator OR = Inr ''|'' \<and>
   to_string_Operator NOT = Inr ''!'' \<and>
   to_string_Operator PLUS = Inr ''+'' \<and> to_string_Operator MINUS = Inr ''-'' \<and>
   to_string_Operator TIMES = Inr ''*'' \<and> to_string_Operator DIVIDE = Inr ''/'' \<and>
   op_string Cast_C CAST VOID = Inl out_of_range \<and>
   op_string Cast_C CAST ANY = Inl out_of_range"
  using to_string_Type_raises [of ty] to_string_Operator_raises [of oper]
    to_string_Type_values to_string_Operator_values Cast_op_string_raises [of CAST]
  by simp

text \<open>
  The rendering of an operation asks for the spelling first: when \<^verbatim>\<open>op_string\<close> throws,
  so does \<^verbatim>\<open>to_string\<close>, for every arrangement of the text. A cast never fails to be
  built, also to \<^verbatim>\<open>VOID\<close> or \<^verbatim>\<open>ANY\<close>.
\<close>

lemma to_string_spelling_raises:
  "op_string c oper ty = Inl e \<Longrightarrow> to_string L (Operation c oper ty f nc cs) d = Inl e"
  by simp

lemma single_child_ctor:
  "Operation_ctor oper (From_first operand []) w =
     Inr (\<lparr>op = oper, t = type operand, fail = error operand, needs_coercion = False,
           children = [operand]\<rparr>, w)"
  by (simp add: Let_def check_def type_matches_def)

lemma Cast_node:
  "Cast ty operand w = Inr (Operation Cast_C CAST ty (error operand) False [operand], w)"
  by (simp add: Cast_def single_child_ctor node_def set_type_def del: Operation_ctor.simps)

lemma UnaryMinus_node:
  "UnaryMinus operand w =
     Inr (Operation UnaryMinus_C UNARY_MINUS (type operand) (error operand) False [operand], w)"
  by (simp add: UnaryMinus_def single_child_ctor node_def del: Operation_ctor.simps)

lemma Cast_to_string_raises:
  "ty = VOID \<or> ty = ANY \<Longrightarrow> Cast ty operand w = Inr (nd, w') \<Longrightarrow>
   to_string L nd d = Inl out_of_range"
  using Cast_op_string_raises [of CAST] by (auto simp: Cast_node)

section \<open>Nop\<close>

text \<open>
  Claim C9. A \<^verbatim>\<open>Nop\<close> node renders to the empty string at every indentation depth, has the
  static type \<^verbatim>\<open>VOID\<close>, and \<^verbatim>\<open>error()\<close> is false.
\<close>

theorem Nop_node:
  "to_string L Nop d = Inr [] \<and> type Nop = VOID \<and> error Nop = False"
  by simp

section \<open>The spelling of the unary minus\<close>



text \<open>The text of the node is arranged from that spelling, at every depth.\<close>

lemma UnaryMinus_to_string:
  "UnaryMinus operand w = Inr (nd, w') \<Longrightarrow>
   to_string L nd d = L (Some ''-u'') False [(type operand, \<lambda>d'. to_string L operand d')] d"
  by (auto simp: UnaryMinus_node)

section \<open>ExpressionList\<close>

lemma ExpressionList_adds:
  "foldl (\<lambda>l a. add a l) (ExpressionList xs f) ys =
     ExpressionList (xs @ ys) (f \<or> list_ex error ys)"
  by (induction ys arbitrary: xs f) simp_all

text \<open>
  After any sequence of \<^verbatim>\<open>add\<close>, \<^verbatim>\<open>error()\<close> is the initial value of \<^verbatim>\<open>fail\<close> joined with
  the members' errors: it is "some member fails" only when the flag started as false.
\<close>

lemma ExpressionList_error_members:
  "error (foldl (\<lambda>l a. add a l) (ExpressionList_ctor f) ys) = (f \<or> list_ex error ys)"
  by (simp add: ExpressionList_ctor_def ExpressionList_adds)

text \<open>
  Claim C5 at the failing input: a default-initialised \<^verbatim>\<open>ExpressionList\<close> whose
  uninitialised \<^verbatim>\<open>fail\<close> happens to hold true has no members, and \<^verbatim>\<open>error()\<close> is true.
\<close>

theorem ExpressionList_empty_error:
  "size_ExpressionList (ExpressionList_ctor True) = 0 \<and> error (ExpressionList_ctor True) = True"
  by (simp add: ExpressionList_ctor_def)

section \<open>The diagnostic line\<close>

lemma digit_not_newline: "n < 10 \<Longrightarrow> digit n \<noteq> CHR 0x0A"
proof -
  assume "n < 10"
  then have "digit n \<in> set ''0123456789''"
    unfolding digit_def by (intro nth_mem) simp
  then show ?thesis by auto
qed

lemma decimal_no_newline: "CHR 0x0A \<notin> set (decimal n)"
proof (induction n rule: decimal.induct)
  case (1 n)
  show ?case
  proof (cases "n < 10")
    case True
    then show ?thesis using digit_not_newline [of n] by (simp add: decimal.simps)
  next
    case False
    have "n mod 10 < 10" by simp
    then have "digit (n mod 10) \<noteq> CHR 0x0A" by (rule digit_not_newline)
    with False 1 show ?thesis by (subst decimal.simps) auto
  qed
qed

lemma to_string_size_t_no_newline: "CHR 0x0A \<notin> set (to_string_size_t k)"
  by (simp add: to_string_size_t_def decimal_no_newline)

lemma printable_type_no_newline:
  "to_printable_string_Type ty = Inr s \<Longrightarrow> CHR 0x0A \<notin> set s"
  by (cases ty) (auto simp: to_printable_string_Type_def at_def printable_type_table_def)

lemma printable_operator_no_newline:
  "to_printable_string_Operator oper = Inr s \<Longrightarrow> CHR 0x0A \<notin> set s"
  by (cases oper)
    (auto simp: to_printable_string_Operator_def at_def printable_operator_table_def)

lemma error_prefix_semantic:
  "error_prefix ''semantic'' w =
     ''[Line '' @ to_string_size_t (counter w) @ ''] semantic error: ''"
  by (simp add: error_prefix_def)

lemma echo_semantic:
  "counter (echo (error_prefix ''semantic'' w @ m) w) = counter w \<and>
   cerr (echo (error_prefix ''semantic'' w @ m) w) =
     cerr w @ ''[Line '' @ to_string_size_t (counter w) @ ''] semantic error: '' @ m
       @ [CHR 0x0A]"
  by (simp add: echo_def error_prefix_semantic)

lemma incompatible_operands_message:
  assumes "incompatible_operands oper expected actual w = Inr w'"
  shows "\<exists>m. w' = echo (error_prefix ''semantic'' w @ m) w \<and> CHR 0x0A \<notin> set m"
proof -
  from assms obtain a b c where
    a: "to_printable_string_Operator oper = Inr a" and
    b: "to_printable_string_Type expected = Inr b" and
    c: "to_printable_string_Type actual = Inr c" and
    w': "w' = echo (error_prefix ''semantic'' w
                      @ (a @ '' operation expected '' @ b @ '' but received '' @ c)) w"
    by (auto simp: incompatible_operands_def split: sum.splits)
  have "CHR 0x0A \<notin> set (a @ '' operation expected '' @ b @ '' but received '' @ c)"
    using printable_operator_no_newline [OF a] printable_type_no_newline [OF b]
      printable_type_no_newline [OF c] by simp
  then show ?thesis using w' by blast
qed

text \<open>
  Every specialisation that returns has written the prefix, a message and the line end;
  the message has no line end of its own unless the name argument has one.
\<close>

lemma semantic_error_message:
  assumes "semantic_error err w = Inr w'"
  shows "\<exists>m. w' = echo (error_prefix ''semantic'' w @ m) w \<and>
           (CHR 0x0A \<notin> set (name_of err) \<longrightarrow> CHR 0x0A \<notin> set m)"
proof (cases err)
  case (INCOMPATIBLE_OPERANDS oper expected actual)
  with assms incompatible_operands_message show ?thesis by fastforce
next
  case (INCOMPATIBLE_ASSIGNMENT expected actual)
  with assms incompatible_operands_message show ?thesis by fastforce
next
  case (INCOMPATIBLE_TEST received)
  with assms incompatible_operands_message show ?thesis by fastforce
next
  case (INCOMPATIBLE_PARAM name expected actual)
  with assms obtain b c where
    b: "to_printable_string_Type expected = Inr b" and
    c: "to_printable_string_Type actual = Inr c" and
    w': "w' = echo (error_prefix ''semantic'' w
              @ (''parameter '' @ name @ '' expected '' @ b @ '' but received '' @ c)) w"
    by (auto split: sum.splits)
  have "CHR 0x0A \<notin> set name \<longrightarrow>
        CHR 0x0A \<notin> set (''parameter '' @ name @ '' expected '' @ b @ '' but received '' @ c)"
    using printable_type_no_newline [OF b] printable_type_no_newline [OF c] by simp
  with w' INCOMPATIBLE_PARAM show ?thesis by auto
next
  case (INCOMPATIBLE_INDEX expected actual)
  with assms obtain b c where
    b: "to_printable_string_Type expected = Inr b" and
    c: "to_printable_string_Type actual = Inr c" and
    w': "w' = echo (error_prefix ''semantic'' w
              @ (''index operator expects '' @ b @ '' but received '' @ c)) w"
    by (auto split: sum.splits)
  have "CHR 0x0A \<notin> set (''index operator expects '' @ b @ '' but received '' @ c)"
    using printable_type_no_newline [OF b] printable_type_no_newline [OF c] by simp
  with w' show ?thesis by blast
next
  case (WRONG_PARAM_COUNT name expected actual)
  with assms have w': "w' = echo (error_prefix ''semantic'' w
      @ (''function '' @ name @ '' expects '' @ to_string_size_t expected
           @ '' parameters but received '' @ to_string_size_t actual)) w" by simp
  have "CHR 0x0A \<notin> set name \<longrightarrow>
        CHR 0x0A \<notin> set (''function '' @ name @ '' expects '' @ to_string_size_t expected
                          @ '' parameters but received '' @ to_string_size_t actual)"
    using to_string_size_t_no_newline by simp
  with w' WRONG_PARAM_COUNT show ?thesis by auto
next
  case (MULTIPLE_DEFINITION name)
  with assms have
    "w' = echo (error_prefix ''semantic'' w @ (''re-declaration of variable '' @ name)) w"
    by simp
  moreover have
    "CHR 0x0A \<notin> set name \<longrightarrow> CHR 0x0A \<notin> set (''re-declaration of variable '' @ name)"
    by simp
  ultimately show ?thesis using MULTIPLE_DEFINITION by auto
next
  case (MULTIPLE_DEFINITION_FN name)
  with assms have
    "w' = echo (error_prefix ''semantic'' w @ (''re-declaration of function '' @ name)) w"
    by simp
  moreover have
    "CHR 0x0A \<notin> set name \<longrightarrow> CHR 0x0A \<notin> set (''re-declaration of function '' @ name)"
    by simp
  ultimately show ?thesis using MULTIPLE_DEFINITION_FN by auto
next
  case (UNDECLARED_VARIABLE name)
  with assms have
    "w' = echo (error_prefix ''semantic'' w @ (''undeclared variable '' @ name)) w"
    by simp
  moreover have
    "CHR 0x0A \<notin> set name \<longrightarrow> CHR 0x0A \<notin> set (''undeclared variable '' @ name)"
    by simp
  ultimately show ?thesis using UNDECLARED_VARIABLE by auto
next
  case (DECLARED_BUT_NEVER_DEFINED name)
  with assms have
    "w' = echo (error_prefix ''semantic'' w
                  @ (''function '' @ name @ '' is declared but never defined'')) w"
    by simp
  moreover have
    "CHR 0x0A \<notin> set name \<longrightarrow>
     CHR 0x0A \<notin> set (''function '' @ name @ '' is declared but never defined'')"
    by simp
  ultimately show ?thesis using DECLARED_BUT_NEVER_DEFINED by auto
next
  case NON_ARRAY_INDEX
  with assms have
    "w' = echo (error_prefix ''semantic'' w @ ''index operator expects an array'') w"
    by simp
  moreover have "CHR 0x0A \<notin> set ''index operator expects an array''" by simp
  ultimately show ?thesis by blast
qed

text \<open>
  Claim C7, as the code has it. Whichever \<^verbatim>\<open>semantic_error\<close> is called, when it emits its
  diagnostic it appends to \<^verbatim>\<open>std::cerr\<close> exactly \<open>[Line n] semantic error: message\<close> and the
  line end, where \<open>n\<close> is the decimal value of the line counter at the call, and it leaves
  the counter as it was. The text is a single line when the name passed to the call
  contains no line end; the five kinds that take no name always write a single line.
\<close>

theorem semantic_error_one_line:
  assumes "semantic_error err w = Inr w'"
  shows "counter w' = counter w \<and>
    (\<exists>message.
       cerr w' = cerr w @ ''[Line '' @ to_string_size_t (counter w) @ ''] semantic error: ''
                   @ message @ [CHR 0x0A] \<and>
       (CHR 0x0A \<notin> set (name_of err) \<longrightarrow> CHR 0x0A \<notin> set message))"
proof -
  from semantic_error_message [OF assms] obtain m where
    w': "w' = echo (error_prefix ''semantic'' w @ m) w" and
    m: "CHR 0x0A \<notin> set (name_of err) \<longrightarrow> CHR 0x0A \<notin> set m" by blast
  from w' echo_semantic [of w m] have "counter w' = counter w" and
    "cerr w' = cerr w @ ''[Line '' @ to_string_size_t (counter w) @ ''] semantic error: ''
                 @ m @ [CHR 0x0A]"
    by simp_all
  with m show ?thesis by blast
qed

lemma to_string_size_t_7: "to_string_size_t 7 = ''7''"
  by (simp add: to_string_size_t_def decimal.simps digit_def)

text \<open>The witness: the variable \<open>x\<close> is declared again on line 7.\<close>

lemma semantic_error_example:
  "semantic_error (MULTIPLE_DEFINITION ''x'') \<lparr>counter = 7, cerr = []\<rparr> =
     Inr \<lparr>counter = 7,
          cerr = ''[Line 7] semantic error: re-declaration of variable x'' @ [CHR 0x0A]\<rparr>"
  by (simp add: echo_def error_prefix_def to_string_size_t_7)

theorem semantic_error_one_line_witness:
  "semantic_error (MULTIPLE_DEFINITION ''x'') \<lparr>counter = 7, cerr = []\<rparr> =
     Inr \<lparr>counter = 7,
          cerr = ''[Line 7] semantic error: re-declaration of variable x'' @ [CHR 0x0A]\<rparr> \<and>
   CHR 0x0A \<notin> set (name_of (MULTIPLE_DEFINITION ''x'')) \<and>
   (\<exists>message.
      ''[Line 7] semantic error: re-declaration of variable x'' @ [CHR 0x0A]
      = ''[Line '' @ to_string_size_t 7 @ ''] semantic error: '' @ message @ [CHR 0x0A] \<and>
      CHR 0x0A \<notin> set message)"
  using semantic_error_one_line [OF semantic_error_example] semantic_error_example by simp

text \<open>
  Claim C7, as stated, fails. The name is appended as it is: for a name that contains a
  line end, here the three characters \<open>a\<close>, line end, \<open>b\<close>, the diagnostic for
  \<^verbatim>\<open>MULTIPLE_DEFINITION\<close> is two lines, the second of which does not start with the prefix.
\<close>

theorem semantic_error_one_line_counterexample:
  "semantic_error (MULTIPLE_DEFINITION [CHR ''a'', CHR 0x0A, CHR ''b''])
     \<lparr>counter = 7, cerr = []\<rparr> =
     Inr \<lparr>counter = 7,
          cerr = ''[Line 7] semantic error: re-declaration of variable a'' @ [CHR 0x0A]
                   @ ''b'' @ [CHR 0x0A]\<rparr> \<and>
   count_list (''[Line 7] semantic error: re-declaration of variable a'' @ [CHR 0x0A]
                 @ ''b'' @ [CHR 0x0A]) (CHR 0x0A) = 2"
  by (simp add: echo_def error_prefix_def to_string_size_t_7)

section \<open>Operation: error cascade suppression\<close>

text \<open>Once the node has failed, no child is checked: the children are appended.\<close>

lemma set_children_failed:
  "fail n \<Longrightarrow> set_children chk (n, w) args = Inr (n\<lparr>children := children n @ args\<rparr>, w)"
  by (induction args arbitrary: n) simp_all

lemma set_children_append:
  "set_children chk s (xs @ ys) =
     (case set_children chk s xs of Inl e \<Rightarrow> Inl e | Inr s' \<Rightarrow> set_children chk s' ys)"
proof (induction xs arbitrary: s)
  case Nil
  then show ?case by (cases s) simp
next
  case (Cons a xs)
  then show ?case by (cases s) (simp add: Let_def split: sum.splits prod.splits)
qed

text \<open>A child that carries an error leaves the node failed, whatever the check does.\<close>

lemma set_children_error_fail:
  "list_ex error args \<Longrightarrow> set_children chk (n, w) args = Inr (n', w') \<Longrightarrow> fail n'"
proof (induction args arbitrary: n w)
  case Nil
  then show ?case by simp
next
  case (Cons a args)
  show ?case
  proof (cases "fail n \<or> error a")
    case True
    then have "fail (n\<lparr>fail := fail n \<or> error a, children := children n @ [a]\<rparr>)" by simp
    from set_children_failed [OF this, of chk w args] Cons.prems(2) True
    show ?thesis by (auto simp: Let_def)
  next
    case False
    with Cons.prems(1) have rest: "list_ex error args" by simp
    from False Cons.prems(2) obtain n2 w2 where
      "set_children chk (n2\<lparr>children := children n2 @ [a]\<rparr>, w2) args = Inr (n', w')"
      by (auto simp: Let_def split: sum.splits)
    from Cons.IH [OF rest this] show ?thesis .
  qed
qed

lemma set_children_step_failed:
  assumes "fail n \<or> error a"
  shows "set_children chk (n, w) (a # args) =
           Inr (n\<lparr>fail := True, children := children n @ a # args\<rparr>, w)"
proof -
  have "fail (n\<lparr>fail := True, children := children n @ [a]\<rparr>)" by simp
  from set_children_failed [OF this, of chk w args] assms show ?thesis
    by (simp add: Let_def)
qed

text \<open>
  Claim C2. Let the child at position \<open>i\<close> of the argument pack, or an earlier one, report
  \<^verbatim>\<open>error()\<close>, and let \<open>(n, w)\<close> be the node and the process state when the children
  before position \<open>i\<close> have been handled. Then, whatever \<^verbatim>\<open>check\<close> would do, handling the
  child at \<open>i\<close> changes nothing but the failed flag, which is set, and the children list,
  to which the child is appended: the check is not run for it and nothing is written.
  The same holds for every later child, so the finished node is failed, holds all the
  remaining children, and the process state is still \<open>w\<close>.
\<close>

theorem set_children_cascade:
  assumes i: "i < length args"
    and e: "\<exists>j\<le>i. error (args ! j)"
    and p: "set_children chk s (take i args) = Inr (n, w)"
  shows "set_children chk s (take (Suc i) args) =
           Inr (n\<lparr>fail := True, children := children n @ [args ! i]\<rparr>, w) \<and>
         set_children chk s args =
           Inr (n\<lparr>fail := True, children := children n @ drop i args\<rparr>, w)"
proof -
  have f: "fail n \<or> error (args ! i)"
  proof (cases "error (args ! i)")
    case True
    then show ?thesis by simp
  next
    case False
    with e obtain j where j: "j < i" "error (args ! j)"
      by (metis le_neq_implies_less)
    with i have "j < length (take i args)" by simp
    then have "take i args ! j \<in> set (take i args)" by (rule nth_mem)
    moreover from j have "take i args ! j = args ! j" by simp
    ultimately have "list_ex error (take i args)"
      unfolding list_ex_iff using j(2) by metis
    with p show ?thesis by (cases s) (auto dest: set_children_error_fail)
  qed
  have d: "drop i args = args ! i # drop (Suc i) args"
    using i by (simp add: Cons_nth_drop_Suc)
  have t: "take (Suc i) args = take i args @ [args ! i]"
    using i by (simp add: take_Suc_conv_app_nth)
  have a: "args = take i args @ args ! i # drop (Suc i) args"
    using d by (metis append_take_drop_id)
  have 1: "set_children chk s (take (Suc i) args) =
           Inr (n\<lparr>fail := True, children := children n @ [args ! i]\<rparr>, w)"
    unfolding t set_children_append p using set_children_step_failed [OF f, of chk w "[]"]
    by simp
  have "set_children chk s args = set_children chk (n, w) (args ! i # drop (Suc i) args)"
    by (subst a, subst set_children_append) (simp add: p)
  with set_children_step_failed [OF f, of chk w "drop (Suc i) args"] d
  have 2: "set_children chk s args =
           Inr (n\<lparr>fail := True, children := children n @ drop i args\<rparr>, w)" by simp
  from 1 2 show ?thesis ..
qed

text \<open>
  The witness: \<^verbatim>\<open>Operation(PLUS, Constant(INT, "1"), e, Constant(BOOL, "true"))\<close> where \<open>e\<close>
  is a list that carries an error. The constant at position 2 is a boolean next to an
  integer, and yet nothing is reported for it.
\<close>

theorem set_children_cascade_witness:
  "set_children check
     (\<lparr>op = PLUS, t = INT_T, fail = False, needs_coercion = False, children = []\<rparr>,
      initial_world)
     [Constant INT_T ''1'', ExpressionList [] True, Constant BOOL ''true''] =
   Inr (\<lparr>op = PLUS, t = INT_T, fail = True, needs_coercion = False,
         children = [Constant INT_T ''1'', ExpressionList [] True, Constant BOOL ''true'']\<rparr>,
        initial_world)"
proof -
  let ?args = "[Constant INT_T ''1'', ExpressionList [] True, Constant BOOL ''true'']"
  let ?s = "(\<lparr>op = PLUS, t = INT_T, fail = False, needs_coercion = False, children = []\<rparr>,
             initial_world)"
  let ?n = "\<lparr>op = PLUS, t = INT_T, fail = True, needs_coercion = False,
             children = [Constant INT_T ''1'', ExpressionList [] True]\<rparr>"
  have i: "Suc (Suc 0) < length ?args" by simp
  have "Suc 0 \<le> Suc (Suc 0) \<and> error (?args ! Suc 0)" by simp
  then have e: "\<exists>j\<le>Suc (Suc 0). error (?args ! j)" by blast
  have p: "set_children check ?s (take (Suc (Suc 0)) ?args) = Inr (?n, initial_world)"
    by (simp add: Let_def check_def type_matches_def Constant_def)
  from set_children_cascade [OF i e p] show ?thesis by simp
qed

section \<open>Operation: the compatibility check\<close>

lemma check_coerce:
  "(t n = INT_T \<and> type a = FLOAT) \<or> (t n = FLOAT \<and> type a = INT_T) \<Longrightarrow>
   check a (n, w) = Inr (n\<lparr>needs_coercion := True\<rparr>, w)"
  by (auto simp: check_def type_matches_def can_coerce_def)

lemma check_any_skips: "t n = ANY \<Longrightarrow> check a (n, w) = Inr (n, w)"
  by (simp add: check_def)

lemma check_incompatible:
  assumes "t n \<noteq> ANY" and "t n \<noteq> type a"
    and "\<not> ((t n = INT_T \<and> type a = FLOAT) \<or> (t n = FLOAT \<and> type a = INT_T))"
    and "semantic_error (INCOMPATIBLE_OPERANDS (op n) (t n) (type a)) w = Inr w'"
  shows "check a (n, w) = Inr (n\<lparr>fail := True, t := ANY\<rparr>, w')"
  using assms by (auto simp: check_def type_matches_def can_coerce_def)

lemma printable_type_defined:
  "ty = INT_T \<or> ty = FLOAT \<or> ty = BOOL \<Longrightarrow> \<exists>s. to_printable_string_Type ty = Inr s"
  by (auto simp: to_printable_string_Type_def at_def printable_type_table_def)

lemma printable_type_raises:
  "ty = VOID \<or> ty = ANY \<Longrightarrow> to_printable_string_Type ty = Inl out_of_range"
  by (auto simp: to_printable_string_Type_def at_def printable_type_table_def)

lemma printable_operator_defined:
  "oper \<noteq> PAR \<Longrightarrow> oper \<noteq> CAST \<Longrightarrow> \<exists>s. to_printable_string_Operator oper = Inr s"
  by (cases oper)
    (simp_all add: to_printable_string_Operator_def at_def printable_operator_table_def)

lemma incompatible_operands_defined:
  assumes "oper \<noteq> PAR" and "oper \<noteq> CAST"
    and "expected = INT_T \<or> expected = FLOAT \<or> expected = BOOL"
    and "actual = INT_T \<or> actual = FLOAT \<or> actual = BOOL"
  shows "\<exists>w'. semantic_error (INCOMPATIBLE_OPERANDS oper expected actual) w = Inr w'"
proof -
  from printable_operator_defined [OF assms(1,2)] obtain a where
    "to_printable_string_Operator oper = Inr a" ..
  moreover from printable_type_defined [OF assms(3)] obtain b where
    "to_printable_string_Type expected = Inr b" ..
  moreover from printable_type_defined [OF assms(4)] obtain c where
    "to_printable_string_Type actual = Inr c" ..
  ultimately show ?thesis by (simp add: incompatible_operands_def)
qed

text \<open>
  The printable names of \<^verbatim>\<open>VOID\<close> and \<^verbatim>\<open>ANY\<close> are missing from the table: the diagnostic
  for an operand of either type throws before anything is written.
\<close>

lemma exn_out_of_range: "(e :: exn) = out_of_range"
  by (cases e) simp

lemma incompatible_operands_raises:
  "actual = VOID \<or> actual = ANY \<Longrightarrow>
   semantic_error (INCOMPATIBLE_OPERANDS oper expected actual) w = Inl out_of_range"
  using printable_type_raises [of actual]
  by (cases "to_printable_string_Operator oper"; cases "to_printable_string_Type expected")
    (simp_all add: incompatible_operands_def exn_out_of_range)

lemma fail_unchanged: "\<not> fail n \<Longrightarrow> n\<lparr>fail := False\<rparr> = n"
  by (cases n) simp

lemma set_children_single:
  "\<not> fail n \<Longrightarrow> \<not> error a \<Longrightarrow>
   set_children chk (n, w) [a] =
     (case chk a (n, w) of Inl e \<Rightarrow> Inl e
      | Inr (n2, w2) \<Rightarrow> Inr (n2\<lparr>children := children n2 @ [a]\<rparr>, w2))"
  by (simp add: Let_def fail_unchanged split: sum.splits)

text \<open>
  Claim C1, as the code has it. Let no earlier child have failed the node, let the
  additional child carry no error, let the accumulated type \<open>T\<close> and the child's type \<open>S\<close>
  be different types among \<^verbatim>\<open>INT\<close>, \<^verbatim>\<open>FLOAT\<close> and \<^verbatim>\<open>BOOL\<close>, and let the operator have a
  printable name (it is not \<^verbatim>\<open>PAR\<close> or \<^verbatim>\<open>CAST\<close>). If the pair is \<^verbatim>\<open>INT\<close> and \<^verbatim>\<open>FLOAT\<close>, in
  either position, the child is accepted, the node's needs-coercion marker is set and
  nothing is written. For every other such pair exactly one \<^verbatim>\<open>INCOMPATIBLE_OPERANDS\<close>
  diagnostic, one line, is written, the failed flag is set and the type becomes \<^verbatim>\<open>ANY\<close>.
  In both cases the child is appended.
\<close>

theorem Operation_operand_pairs:
  assumes "\<not> fail n" and "\<not> error a" and "t n \<noteq> type a"
    and "t n = INT_T \<or> t n = FLOAT \<or> t n = BOOL"
    and "type a = INT_T \<or> type a = FLOAT \<or> type a = BOOL"
    and "op n \<noteq> PAR" and "op n \<noteq> CAST"
  shows "if (t n = INT_T \<and> type a = FLOAT) \<or> (t n = FLOAT \<and> type a = INT_T)
         then set_children check (n, w) [a] =
                Inr (n\<lparr>needs_coercion := True, children := children n @ [a]\<rparr>, w)
         else (\<exists>w' message.
                set_children check (n, w) [a] =
                  Inr (n\<lparr>fail := True, t := ANY, children := children n @ [a]\<rparr>, w') \<and>
                semantic_error (INCOMPATIBLE_OPERANDS (op n) (t n) (type a)) w = Inr w' \<and>
                cerr w' = cerr w @ ''[Line '' @ to_string_size_t (counter w)
                            @ ''] semantic error: '' @ message @ [CHR 0x0A] \<and>
                CHR 0x0A \<notin> set message)"
proof -
  note single = set_children_single [OF assms(1,2), of check w]
  show ?thesis
  proof (cases "(t n = INT_T \<and> type a = FLOAT) \<or> (t n = FLOAT \<and> type a = INT_T)")
    case True
    from check_coerce [OF True, of w] True show ?thesis
      by (simp add: single del: set_children.simps)
  next
    case False
    from incompatible_operands_defined [OF assms(6,7,4,5), of w] obtain w' where
      w': "semantic_error (INCOMPATIBLE_OPERANDS (op n) (t n) (type a)) w = Inr w'" ..
    from assms(4) have "t n \<noteq> ANY" by auto
    from check_incompatible [OF this assms(3) False w']
    have c: "set_children check (n, w) [a] =
               Inr (n\<lparr>fail := True, t := ANY, children := children n @ [a]\<rparr>, w')"
      by (simp add: single del: set_children.simps)
    from semantic_error_message [OF w'] obtain message where
      e: "w' = echo (error_prefix ''semantic'' w @ message) w" and
      m: "CHR 0x0A \<notin> set message" by auto
    from e echo_semantic [of w message]
    have "cerr w' = cerr w @ ''[Line '' @ to_string_size_t (counter w)
                 @ ''] semantic error: '' @ message @ [CHR 0x0A]" by simp
    with c w' m False show ?thesis by auto
  qed
qed

text \<open>
  The witness: an addition whose first child is an integer constant receives a float
  constant and, in the other run, a boolean constant.
\<close>

theorem Operation_operand_pairs_witness:
  "set_children check
     (\<lparr>op = PLUS, t = INT_T, fail = False, needs_coercion = False,
       children = [Constant INT_T ''1'']\<rparr>, initial_world)
     [Constant FLOAT ''2.0''] =
   Inr (\<lparr>op = PLUS, t = INT_T, fail = False, needs_coercion = True,
         children = [Constant INT_T ''1'', Constant FLOAT ''2.0'']\<rparr>, initial_world) \<and>
   (\<exists>w' message.
      set_children check
        (\<lparr>op = PLUS, t = INT_T, fail = False, needs_coercion = False,
          children = [Constant INT_T ''1'']\<rparr>, initial_world)
        [Constant BOOL ''true''] =
      Inr (\<lparr>op = PLUS, t = ANY, fail = True, needs_coercion = False,
            children = [Constant INT_T ''1'', Constant BOOL ''true'']\<rparr>, w') \<and>
      cerr w' = ''[Line '' @ to_string_size_t 1 @ ''] semantic error: '' @ message
                  @ [CHR 0x0A] \<and>
      CHR 0x0A \<notin> set message)"
proof -
  let ?n = "\<lparr>op = PLUS, t = INT_T, fail = False, needs_coercion = False,
             children = [Constant INT_T ''1'']\<rparr>"
  have n: "\<not> fail ?n" "t ?n = INT_T \<or> t ?n = FLOAT \<or> t ?n = BOOL"
    "op ?n \<noteq> PAR" "op ?n \<noteq> CAST" by simp_all
  have f: "\<not> error (Constant FLOAT ''2.0'')" "t ?n \<noteq> type (Constant FLOAT ''2.0'')"
    "type (Constant FLOAT ''2.0'') = INT_T \<or> type (Constant FLOAT ''2.0'') = FLOAT
      \<or> type (Constant FLOAT ''2.0'') = BOOL"
    by (simp_all add: Constant_def)
  have b: "\<not> error (Constant BOOL ''true'')" "t ?n \<noteq> type (Constant BOOL ''true'')"
    "type (Constant BOOL ''true'') = INT_T \<or> type (Constant BOOL ''true'') = FLOAT
      \<or> type (Constant BOOL ''true'') = BOOL"
    by (simp_all add: Constant_def)
  have ty: "type (Constant FLOAT ''2.0'') = FLOAT" "type (Constant BOOL ''true'') = BOOL"
    by (simp_all add: Constant_def)
  from Operation_operand_pairs [OF n(1) f(1) f(2) n(2) f(3) n(3) n(4), of initial_world]
  have 1: "set_children check (?n, initial_world) [Constant FLOAT ''2.0''] =
     Inr (\<lparr>op = PLUS, t = INT_T, fail = False, needs_coercion = True,
           children = [Constant INT_T ''1'', Constant FLOAT ''2.0'']\<rparr>, initial_world)"
    by (simp add: ty del: set_children.simps)
  from Operation_operand_pairs [OF n(1) b(1) b(2) n(2) b(3) n(3) n(4), of initial_world]
  have 2: "\<exists>w' message.
      set_children check (?n, initial_world) [Constant BOOL ''true''] =
      Inr (\<lparr>op = PLUS, t = ANY, fail = True, needs_coercion = False,
            children = [Constant INT_T ''1'', Constant BOOL ''true'']\<rparr>, w') \<and>
      cerr w' = ''[Line '' @ to_string_size_t 1 @ ''] semantic error: '' @ message
                  @ [CHR 0x0A] \<and>
      CHR 0x0A \<notin> set message"
    by (simp add: ty initial_world_def del: set_children.simps) blast
  from 1 2 show ?thesis ..
qed

lemma to_string_size_t_1: "to_string_size_t 1 = ''1''"
  by (simp add: to_string_size_t_def decimal.simps digit_def)

lemma failed_sum_example:
  "Operation_ctor PLUS (From_first (Constant INT_T ''1'') [Constant BOOL ''true''])
     initial_world =
   Inr (\<lparr>op = PLUS, t = ANY, fail = True, needs_coercion = False,
         children = [Constant INT_T ''1'', Constant BOOL ''true'']\<rparr>,
        \<lparr>counter = 1,
         cerr = ''[Line 1] semantic error: addition operation expected integer but received boolean''
                  @ [CHR 0x0A]\<rparr>)"
  by (simp add: Let_def check_def type_matches_def can_coerce_def Constant_def
      incompatible_operands_def to_printable_string_Operator_def
      to_printable_string_Type_def at_def printable_operator_table_def
      printable_type_table_def echo_def error_prefix_def initial_world_def
      to_string_size_t_1)

text \<open>
  Claim C1, as stated, fails. The product \<open>(1 + true) * 2\<close>: the sum has been built and
  has reported its operands (\<open>failed_sum_example\<close> is that construction), so it carries an
  error and its type is \<^verbatim>\<open>ANY\<close>. The product is an \<^verbatim>\<open>Operation\<close> over the accumulated type
  \<^verbatim>\<open>ANY\<close> with an additional child of type \<^verbatim>\<open>INT\<close>, an unequal pair that is not \<^verbatim>\<open>INT\<close>
  with \<^verbatim>\<open>FLOAT\<close>; its failed flag is set, but no diagnostic is written for it:
  \<^verbatim>\<open>std::cerr\<close> holds the one line of the sum, as before.
\<close>

theorem Operation_operand_pairs_counterexample:
  "Operation_ctor TIMES
     (From_first
        (Operation Operation_C PLUS ANY True False
           [Constant INT_T ''1'', Constant BOOL ''true''])
        [Constant INT_T ''2''])
     \<lparr>counter = 1,
      cerr = ''[Line 1] semantic error: addition operation expected integer but received boolean''
               @ [CHR 0x0A]\<rparr> =
   Inr (\<lparr>op = TIMES, t = ANY, fail = True, needs_coercion = False,
         children =
           [Operation Operation_C PLUS ANY True False
              [Constant INT_T ''1'', Constant BOOL ''true''],
            Constant INT_T ''2'']\<rparr>,
        \<lparr>counter = 1,
         cerr = ''[Line 1] semantic error: addition operation expected integer but received boolean''
                  @ [CHR 0x0A]\<rparr>)"
  by (simp add: Let_def)

text \<open>
  Two more places where the claim as stated fails. An operation whose accumulated type is
  \<^verbatim>\<open>ANY\<close> without an error (the type was passed to the constructor) accepts a child of
  any type silently; and for a child of type \<^verbatim>\<open>VOID\<close>, such as a \<^verbatim>\<open>Nop\<close>, the diagnostic
  throws before it is written, so no node is built.
\<close>

lemma Operation_any_silent:
  "Operation_ctor oper (With_type ANY [a]) w =
     Inr (\<lparr>op = oper, t = ANY, fail = error a, needs_coercion = False, children = [a]\<rparr>, w)"
  by (simp add: Let_def check_any_skips)

lemma Operation_void_operand_raises:
  "Operation_ctor PLUS (From_first (Constant INT_T ''1'') [Nop]) w = Inl out_of_range"
proof -
  have "semantic_error (INCOMPATIBLE_OPERANDS PLUS INT_T VOID) w = Inl out_of_range"
    by (rule incompatible_operands_raises) simp
  then show ?thesis
    by (simp add: Let_def check_def type_matches_def can_coerce_def Constant_def
        del: semantic_error.simps)
qed

section \<open>Comparison\<close>

text \<open>
  Claim C6. Every \<^verbatim>\<open>Comparison\<close> node that has been constructed, from a first child or
  from an explicit type, has the static type \<^verbatim>\<open>BOOL\<close>, whatever its operands.
\<close>

theorem Comparison_type:
  "Comparison oper args w = Inr (nd, w') \<Longrightarrow> type nd = BOOL"
  by (auto simp: Comparison_def node_def set_type_def split: sum.splits)

text \<open>
  The witness: \<open>1 < true\<close>, whose operands are incompatible. The check has set the type
  to \<^verbatim>\<open>ANY\<close> and the constructor of \<^verbatim>\<open>Comparison\<close> has overwritten it.
\<close>

lemma failed_comparison_example:
  "Comparison LESS_THAN (From_first (Constant INT_T ''1'') [Constant BOOL ''true''])
     initial_world =
   Inr (Operation Comparison_C LESS_THAN BOOL True False
          [Constant INT_T ''1'', Constant BOOL ''true''],
        \<lparr>counter = 1,
         cerr = ''[Line 1] semantic error: less than operation expected integer but received boolean''
                  @ [CHR 0x0A]\<rparr>)"
  by (simp add: Comparison_def node_def set_type_def Let_def check_def type_matches_def
      can_coerce_def Constant_def incompatible_operands_def to_printable_string_Operator_def
      to_printable_string_Type_def at_def printable_operator_table_def
      printable_type_table_def echo_def error_prefix_def initial_world_def
      to_string_size_t_1)

text \<open>Equal and coercible operands: the node is built silently, and its type is \<^verbatim>\<open>BOOL\<close>.\<close>

lemma Comparison_examples:
  "Comparison EQUAL (From_first (Constant INT_T ''1'') [Constant INT_T ''2'']) w =
     Inr (Operation Comparison_C EQUAL BOOL False False
            [Constant INT_T ''1'', Constant INT_T ''2''], w) \<and>
   Comparison EQUAL (From_first (Constant INT_T ''1'') [Constant FLOAT ''2.0'']) w =
     Inr (Operation Comparison_C EQUAL BOOL False True
            [Constant INT_T ''1'', Constant FLOAT ''2.0''], w)"
  by (simp add: Comparison_def node_def set_type_def Let_def check_def type_matches_def
      can_coerce_def Constant_def)

theorem Comparison_type_witness:
  "Comparison LESS_THAN (From_first (Constant INT_T ''1'') [Constant BOOL ''true''])
     initial_world =
   Inr (Operation Comparison_C LESS_THAN BOOL True False
          [Constant INT_T ''1'', Constant BOOL ''true''],
        \<lparr>counter = 1,
         cerr = ''[Line 1] semantic error: less than operation expected integer but received boolean''
                  @ [CHR 0x0A]\<rparr>) \<and>
   type (Operation Comparison_C LESS_THAN BOOL True False
          [Constant INT_T ''1'', Constant BOOL ''true'']) = BOOL"
  using Comparison_type [OF failed_comparison_example] failed_comparison_example
  by (simp del: type.simps)

end
